theory Spec2Isabelle
  imports Main "HOL-Library.Word"
begin

section \<open>Bank assignment form: data model\<close>

text \<open>
  The component \<^verbatim>\<open>BankAssignment\<close> (latest revision, with the phone-response
  field) is embedded: the record type of \<^verbatim>\<open>types/bank.ts\<close>, the zod schema
  \<^verbatim>\<open>formSchema\<close>, and the handlers \<^verbatim>\<open>fetchUnassignedBank\<close>,
  \<^verbatim>\<open>handleCancel\<close> and \<^verbatim>\<open>onSubmit\<close>. Every handler takes the component
  state and the outcomes of the requests it awaits, and returns the settled state together
  with the list of requests it issued, in order.
\<close>

subsection \<open>Strings\<close>

text \<open>
  A JavaScript string is a sequence of 16-bit code units; \<^verbatim>\<open>length\<close>, the regular
  expressions (no \<^verbatim>\<open>u\<close> flag) and \<^verbatim>\<open>startsWith\<close> all work on code units.
  \<open>js\<close> turns an ASCII literal into such a string.
\<close>

type_synonym jsstring = "16 word list"

definition js :: "string \<Rightarrow> jsstring" where
  "js s = map of_char s"

definition is_digit :: "16 word \<Rightarrow> bool" where
  "is_digit c \<longleftrightarrow> 0x30 \<le> c \<and> c \<le> 0x39"

definition is_upper :: "16 word \<Rightarrow> bool" where
  "is_upper c \<longleftrightarrow> 0x41 \<le> c \<and> c \<le> 0x5A"

definition is_lower :: "16 word \<Rightarrow> bool" where
  "is_lower c \<longleftrightarrow> 0x61 \<le> c \<and> c \<le> 0x7A"

text \<open>The class \<^verbatim>\<open>\s\<close>, which is also what \<^verbatim>\<open>trim\<close> strips: WhiteSpace and
  LineTerminator of ECMAScript.\<close>

definition is_space :: "16 word \<Rightarrow> bool" where
  "is_space c \<longleftrightarrow>
     c \<in> {0x09, 0x0A, 0x0B, 0x0C, 0x0D, 0x20, 0xA0, 0x1680, 0x2028, 0x2029, 0x202F,
          0x205F, 0x3000, 0xFEFF}
     \<or> (0x2000 \<le> c \<and> c \<le> 0x200A)"

definition trim :: "jsstring \<Rightarrow> jsstring" where
  "trim s = rev (dropWhile is_space (rev (dropWhile is_space s)))"

text \<open>\<^verbatim>\<open>s.split(sep)\<close> for a one-unit separator: the empty string gives one empty piece.\<close>

fun split :: "16 word \<Rightarrow> jsstring \<Rightarrow> jsstring list" where
  "split sep [] = [[]]"
| "split sep (c # cs) =
     (if c = sep then [] # split sep cs
      else (case split sep cs of
              [] \<Rightarrow> [[c]]
            | p # ps \<Rightarrow> (c # p) # ps))"

text \<open>An optional string is falsy when it is undefined or empty.\<close>

fun falsy :: "jsstring option \<Rightarrow> bool" where
  "falsy None = True"
| "falsy (Some s) = (s = [])"

subsection \<open>Records of the store\<close>

text \<open>
  The interface \<^verbatim>\<open>Bank\<close>. An optional property is an \<open>option\<close>: the records come
  from parsed JSON, where a key is either present or not. The property \<^verbatim>\<open>id\<close> is
  \<open>bank_id\<close> here. \<^verbatim>\<open>response\<close> is kept as the string the store holds: the
  component writes the empty string and the four response names into it.
\<close>

record Bank =
  ufi :: int
  bankName :: jsstring
  ifscCode :: jsstring
  branchName :: jsstring
  address :: jsstring
  updateAddress :: "jsstring option"
  updatedBranchName :: "jsstring option"
  userName :: "jsstring option"
  phoneNumber :: "jsstring option"
  response :: "jsstring option"
  remarks :: "jsstring option"
  bank_id :: int

text \<open>
  The body of a PUT request, \<^verbatim>\<open>{ bank: {...} }\<close>, as it is serialised: the properties
  of a \<^verbatim>\<open>Bank\<close> and the \<^verbatim>\<open>phoneResponse\<close> that \<^verbatim>\<open>onSubmit\<close> spreads in.
  A property whose value is \<^verbatim>\<open>undefined\<close> is left out by the serialisation (\<open>None\<close>).
\<close>

record PutBody = Bank +
  phoneResponse :: "jsstring option"

text \<open>\<^verbatim>\<open>{...bank}\<close>\<close>

definition spread :: "Bank \<Rightarrow> PutBody" where
  "spread b = \<lparr> ufi = ufi b, bankName = bankName b, ifscCode = ifscCode b,
     branchName = branchName b, address = address b, updateAddress = updateAddress b,
     updatedBranchName = updatedBranchName b, userName = userName b,
     phoneNumber = phoneNumber b, response = response b, remarks = remarks b,
     bank_id = bank_id b, phoneResponse = None \<rparr>"

text \<open>The requests of the component: \<^verbatim>\<open>axios.get(SHEETY_API)\<close> and
  \<^verbatim>\<open>axios.put(`${SHEETY_API}/${id}`, { bank })\<close>.\<close>

datatype call = Get | Put int PutBody

subsection \<open>The form\<close>

datatype PhoneResponse =
  toll_free | registered_only | invalid_number | no_response | switched_off | number_not_found

datatype Response =
  address_change | branch_name_change | no_change_in_address | bank_shift

text \<open>
  A property of the form values is absent, present with the value \<^verbatim>\<open>undefined\<close>, or
  defined. The difference shows in a spread: an absent property leaves the one of the
  record underneath, an undefined one overwrites it.
\<close>

datatype 'a optional = Absent | Undefined | Defined 'a

text \<open>The type \<^verbatim>\<open>z.infer<typeof formSchema>\<close> of the form values.\<close>

record FormValues =
  v_phoneNumber :: "jsstring optional"
  v_phoneResponse :: "PhoneResponse optional"
  v_response :: "Response optional"
  v_updateAddress :: "jsstring optional"
  v_updatedBranchName :: "jsstring optional"
  v_remarks :: "jsstring optional"

text \<open>\<^verbatim>\<open>defaultValues: { phoneNumber: '', remarks: '' }\<close>\<close>

definition defaultValues :: FormValues where
  "defaultValues = \<lparr> v_phoneNumber = Defined [], v_phoneResponse = Absent,
     v_response = Absent, v_updateAddress = Absent, v_updatedBranchName = Absent,
     v_remarks = Defined [] \<rparr>"

subsection \<open>Component state\<close>

text \<open>
  The state hooks \<^verbatim>\<open>userName\<close> (here \<open>st_userName\<close>), \<^verbatim>\<open>currentBank\<close>,
  \<^verbatim>\<open>loading\<close> and \<^verbatim>\<open>error\<close>, and the state of the form: its values and the
  issues of the last validation.
\<close>

record State =
  st_userName :: jsstring
  currentBank :: "Bank option"
  loading :: bool
  error :: "string option"
  formValues :: FormValues
  formErrors :: "(string \<times> string) list"

text \<open>\<^verbatim>\<open>form.reset()\<close>\<close>

definition form_reset :: "State \<Rightarrow> State" where
  "form_reset s = s\<lparr> formValues := defaultValues, formErrors := [] \<rparr>"

section \<open>Picking a random index\<close>

text \<open>
  \<^verbatim>\<open>Math.random()\<close> returns a double in \<open>[0, 1)\<close>. Every such double is
  \<open>m / 2 ^ k\<close> with \<open>m < 2 ^ 53\<close> and \<open>53 \<le> k \<le> 1074\<close> (the subnormal ones have
  \<open>k = 1074\<close>), and every such quotient is a double in \<open>[0, 1)\<close>; the pair \<open>(m, k)\<close>
  stands for it.
\<close>

type_synonym double01 = "nat \<times> nat"

definition is_random :: "double01 \<Rightarrow> bool" where
  "is_random r \<longleftrightarrow> fst r < 2 ^ 53 \<and> 53 \<le> snd r \<and> snd r \<le> 1074"

text \<open>The number of binary digits of a natural number.\<close>

fun bits :: "nat \<Rightarrow> nat" where
  "bits n = (if n = 0 then 0 else Suc (bits (n div 2)))"

declare bits.simps [simp del]

text \<open>
  Rounding a natural number to 53 significant binary digits, to nearest, ties to even:
  the significand of the double nearest to \<open>p / 2 ^ k\<close> is \<open>round53 p\<close>, for the same
  \<open>k\<close>. With \<open>k \<le> 1074\<close> a number of at most 53 digits is exact, and a longer one is
  in the normal range.
\<close>

definition round53 :: "nat \<Rightarrow> nat" where
  "round53 p =
     (let s = bits p - 53 in
      if s = 0 then p
      else
        let q = p div 2 ^ s; r = p mod 2 ^ s;
            q' = (if 2 * r > 2 ^ s \<or> (2 * r = 2 ^ s \<and> odd q) then q + 1 else q)
        in q' * 2 ^ s)"

text \<open>
  \<^verbatim>\<open>Math.floor(Math.random() * unassignedBanks.length)\<close>: the length of an array is
  below \<open>2 ^ 32\<close>, hence exact as a double; the product of the two doubles is the exact
  product rounded.
\<close>

definition randomIndex :: "double01 \<Rightarrow> nat \<Rightarrow> nat" where
  "randomIndex r n = round53 (fst r * n) div 2 ^ snd r"

text \<open>\<^verbatim>\<open>xs[i]\<close>: \<^verbatim>\<open>undefined\<close> out of range.\<close>

definition index :: "'a list \<Rightarrow> nat \<Rightarrow> 'a option" where
  "index xs i = (if i < length xs then Some (xs ! i) else None)"

section \<open>The assignment selector\<close>

text \<open>
  What \<^verbatim>\<open>fetchUnassignedBank\<close> awaits: the GET (\<open>None\<close> when the request rejects or
  the response carries no array of banks, both of which throw inside the \<^verbatim>\<open>try\<close>),
  the random number, and whether the PUT resolves.
\<close>

record FetchEnv =
  get_result :: "Bank list option"
  random :: double01
  put_ok :: bool

text \<open>\<^verbatim>\<open>bank => !bank.userName\<close>\<close>

definition unassigned :: "'a Bank_scheme \<Rightarrow> bool" where
  "unassigned bank = falsy (userName bank)"

text \<open>\<^verbatim>\<open>{ ...randomBank, userName }\<close>\<close>

definition claimBody :: "Bank \<Rightarrow> jsstring \<Rightarrow> PutBody" where
  "claimBody randomBank name = (spread randomBank)\<lparr> userName := Some name \<rparr>"

text \<open>
  The \<^verbatim>\<open>catch\<close> block is reached when the GET or the PUT rejects, and when
  \<^verbatim>\<open>randomBank\<close> is \<^verbatim>\<open>undefined\<close> (reading its \<^verbatim>\<open>id\<close> throws). The
  \<^verbatim>\<open>finally\<close> block clears \<^verbatim>\<open>loading\<close> on every path.
\<close>

definition fetchUnassignedBank :: "State \<Rightarrow> FetchEnv \<Rightarrow> State \<times> call list" where
  "fetchUnassignedBank s env =
     (let s1 = s\<lparr> loading := True, error := None \<rparr>;
          failed = s1\<lparr> error := Some ''Failed to fetch bank details. Please try again.'',
                        loading := False \<rparr>
      in case get_result env of
           None \<Rightarrow> (failed, [Get])
         | Some banks \<Rightarrow>
             let unassignedBanks = filter unassigned banks in
             if length unassignedBanks > 0 then
               (case index unassignedBanks (randomIndex (random env) (length unassignedBanks)) of
                  None \<Rightarrow> (failed, [Get])
                | Some randomBank \<Rightarrow>
                    let put = Put (bank_id randomBank) (claimBody randomBank (st_userName s)) in
                    if put_ok env
                    then (s1\<lparr> currentBank := Some randomBank, loading := False \<rparr>, [Get, put])
                    else (failed, [Get, put]))
             else
               (s1\<lparr> error := Some ''No unassigned banks available at the moment.'',
                    loading := False \<rparr>, [Get]))"

section \<open>The form schema\<close>

text \<open>
  \<^verbatim>\<open>formSchema\<close>, with the semantics of zod: the checks of a string run in the
  order written and each failed one adds its message; \<^verbatim>\<open>optional()\<close> lets
  \<^verbatim>\<open>undefined\<close> through; a \<^verbatim>\<open>refine\<close> runs after the checks it follows.
  Reading an absent property gives \<^verbatim>\<open>undefined\<close>.
\<close>

fun value_of :: "'a optional \<Rightarrow> 'a option" where
  "value_of Absent = None"
| "value_of Undefined = None"
| "value_of (Defined v) = Some v"

text \<open>\<^verbatim>\<open>val.startsWith('0')\<close>\<close>

fun startsWith0 :: "jsstring \<Rightarrow> bool" where
  "startsWith0 [] = False"
| "startsWith0 (c # cs) = (c = 0x30)"

text \<open>\<^verbatim>\<open>/^[0-9]+$/\<close>\<close>

definition digits_only :: "jsstring \<Rightarrow> bool" where
  "digits_only val \<longleftrightarrow> val \<noteq> [] \<and> list_all is_digit val"

text \<open>\<^verbatim>\<open>/^[a-zA-Z0-9\s,.-]+$/\<close>\<close>

definition address_chars :: "jsstring \<Rightarrow> bool" where
  "address_chars val \<longleftrightarrow> val \<noteq> [] \<and>
     list_all (\<lambda>c. is_lower c \<or> is_upper c \<or> is_digit c \<or> is_space c
                    \<or> c = 0x2C \<or> c = 0x2E \<or> c = 0x2D) val"

text \<open>\<^verbatim>\<open>/^[a-zA-Z0-9\s-]+$/\<close>\<close>

definition branch_chars :: "jsstring \<Rightarrow> bool" where
  "branch_chars val \<longleftrightarrow> val \<noteq> [] \<and>
     list_all (\<lambda>c. is_lower c \<or> is_upper c \<or> is_digit c \<or> is_space c \<or> c = 0x2D) val"

text \<open>\<^verbatim>\<open>/^[A-Z]/.test(val)\<close>\<close>

fun starts_capital :: "jsstring \<Rightarrow> bool" where
  "starts_capital [] = False"
| "starts_capital (c # cs) = is_upper c"

definition phoneNumber_issues :: "jsstring \<Rightarrow> string list" where
  "phoneNumber_issues val =
     (if length val < 10 then [''Phone number must be at least 10 digits''] else []) @
     (if length val > 15 then [''Phone number must not exceed 15 digits''] else []) @
     (if digits_only val then [] else [''Phone number must contain only digits'']) @
     (if \<not> startsWith0 val then [] else [''Phone number should not start with 0''])"

definition updateAddress_issues :: "jsstring \<Rightarrow> string list" where
  "updateAddress_issues val =
     (if length val < 10 then [''Address must be at least 10 characters''] else []) @
     (if length val > 200 then [''Address must not exceed 200 characters''] else []) @
     (if address_chars val then []
      else [''Address can only contain letters, numbers, spaces, commas, dots, and hyphens'']) @
     (if val = [] \<or> length (split 0x20 (trim val)) \<ge> 3 then []
      else [''Address should contain at least 3 words''])"

definition updatedBranchName_issues :: "jsstring \<Rightarrow> string list" where
  "updatedBranchName_issues val =
     (if length val < 3 then [''Branch name must be at least 3 characters''] else []) @
     (if length val > 100 then [''Branch name must not exceed 100 characters''] else []) @
     (if branch_chars val then []
      else [''Branch name can only contain letters, numbers, spaces, and hyphens'']) @
     (if val = [] \<or> starts_capital val then []
      else [''Branch name should start with a capital letter''])"

definition remarks_issues :: "jsstring \<Rightarrow> string list" where
  "remarks_issues val =
     (if length val > 500 then [''Remarks must not exceed 500 characters''] else [])"

text \<open>
  The issues of the whole object, in the order of its keys. The two enumerations hold
  one of their members whenever they are defined, so only the required one can fail, when
  it is undefined.
\<close>

definition schema_issues :: "FormValues \<Rightarrow> (string \<times> string) list" where
  "schema_issues d =
     map (Pair ''phoneNumber'')
       (case value_of (v_phoneNumber d) of
          None \<Rightarrow> [''Required'']
        | Some val \<Rightarrow> phoneNumber_issues val) @
     map (Pair ''phoneResponse'')
       (case value_of (v_phoneResponse d) of
          None \<Rightarrow> [''Please select a phone response type'']
        | Some r \<Rightarrow> []) @
     map (Pair ''updateAddress'')
       (case value_of (v_updateAddress d) of
          None \<Rightarrow> []
        | Some val \<Rightarrow> updateAddress_issues val) @
     map (Pair ''updatedBranchName'')
       (case value_of (v_updatedBranchName d) of
          None \<Rightarrow> []
        | Some val \<Rightarrow> updatedBranchName_issues val) @
     map (Pair ''remarks'')
       (case value_of (v_remarks d) of
          None \<Rightarrow> []
        | Some val \<Rightarrow> remarks_issues val)"

text \<open>
  The parsed values: the input, with \<^verbatim>\<open>remarks\<close> transformed by
  \<^verbatim>\<open>val => val || ""\<close>. A key of the input stays in the output, also when its value
  is \<^verbatim>\<open>undefined\<close>.
\<close>

definition formSchema :: "FormValues \<Rightarrow> (string \<times> string) list + FormValues" where
  "formSchema d =
     (if schema_issues d = []
      then Inr (d\<lparr> v_remarks :=
                  Defined (case value_of (v_remarks d) of None \<Rightarrow> [] | Some val \<Rightarrow> val) \<rparr>)
      else Inl (schema_issues d))"

section \<open>Submitting and cancelling\<close>

text \<open>
  What \<^verbatim>\<open>onSubmit\<close> and \<^verbatim>\<open>handleCancel\<close> await: whether their own PUT resolves,
  and what the call of \<^verbatim>\<open>fetchUnassignedBank\<close> that follows it meets.
\<close>

record UpdateEnv =
  update_ok :: bool
  refetch :: FetchEnv

fun PhoneResponse_name :: "PhoneResponse \<Rightarrow> jsstring" where
  "PhoneResponse_name toll_free = js ''toll_free''"
| "PhoneResponse_name registered_only = js ''registered_only''"
| "PhoneResponse_name invalid_number = js ''invalid_number''"
| "PhoneResponse_name no_response = js ''no_response''"
| "PhoneResponse_name switched_off = js ''switched_off''"
| "PhoneResponse_name number_not_found = js ''number_not_found''"

fun Response_name :: "Response \<Rightarrow> jsstring" where
  "Response_name address_change = js ''address_change''"
| "Response_name branch_name_change = js ''branch_name_change''"
| "Response_name no_change_in_address = js ''no_change_in_address''"
| "Response_name bank_shift = js ''bank_shift''"

text \<open>
  One property of \<^verbatim>\<open>{...currentBank, ...values}\<close>, serialised: the value of
  \<^verbatim>\<open>values\<close> where it has the key, else the one of \<^verbatim>\<open>currentBank\<close>.
\<close>

fun over :: "'a optional \<Rightarrow> 'a option \<Rightarrow> 'a option" where
  "over Absent old = old"
| "over Undefined old = None"
| "over (Defined v) old = Some v"

text \<open>\<^verbatim>\<open>{ ...currentBank, ...values }\<close>\<close>

definition submitBody :: "Bank \<Rightarrow> FormValues \<Rightarrow> PutBody" where
  "submitBody bank values =
     (spread bank)\<lparr>
       phoneNumber := over (v_phoneNumber values) (phoneNumber bank),
       phoneResponse := over (map_optional PhoneResponse_name (v_phoneResponse values)) None,
       response := over (map_optional Response_name (v_response values)) (response bank),
       updateAddress := over (v_updateAddress values) (updateAddress bank),
       updatedBranchName := over (v_updatedBranchName values) (updatedBranchName bank),
       remarks := over (v_remarks values) (remarks bank) \<rparr>"

text \<open>The body of the PUT of \<^verbatim>\<open>handleCancel\<close>.\<close>

definition cancelBody :: "Bank \<Rightarrow> PutBody" where
  "cancelBody bank =
     (spread bank)\<lparr> userName := Some [], phoneNumber := Some [], response := Some [],
       updateAddress := Some [], updatedBranchName := Some [], remarks := Some [] \<rparr>"

text \<open>
  The four checks at the head of \<^verbatim>\<open>onSubmit\<close>, in their order: the message of the
  first one that fires. A defined response is a non-empty string, so
  \<^verbatim>\<open>!values.response\<close> holds when it is undefined.
\<close>

definition submitChecks :: "FormValues \<Rightarrow> string option" where
  "submitChecks values =
     (if value_of (v_phoneResponse values) \<in> {Some toll_free, Some registered_only}
         \<and> value_of (v_response values) = None
      then Some ''Response type is required for successful calls''
      else if value_of (v_response values) = Some address_change
         \<and> falsy (value_of (v_updateAddress values))
      then Some ''Updated address is required for address change''
      else if value_of (v_response values) = Some branch_name_change
         \<and> falsy (value_of (v_updatedBranchName values))
      then Some ''Updated branch name is required for branch name change''
      else if value_of (v_response values) = Some bank_shift
         \<and> falsy (value_of (v_updateAddress values))
      then Some ''Updated address is required for bank shift''
      else None)"

text \<open>
  \<^verbatim>\<open>onSubmit\<close>. The call of \<^verbatim>\<open>fetchUnassignedBank\<close> at its end is not awaited:
  its updates after the GET come later than the \<^verbatim>\<open>finally\<close> block of
  \<^verbatim>\<open>onSubmit\<close>. Both leave \<^verbatim>\<open>loading\<close> false, so the state returned is the one
  reached when the call has settled. The effect hook that starts
  \<^verbatim>\<open>fetchUnassignedBank\<close> when no bank is held is not part of the handlers.
\<close>

definition onSubmit :: "State \<Rightarrow> FormValues \<Rightarrow> UpdateEnv \<Rightarrow> State \<times> call list" where
  "onSubmit s values env =
     (case currentBank s of
        None \<Rightarrow> (s, [])
      | Some bank \<Rightarrow>
          let s1 = s\<lparr> loading := True, error := None \<rparr> in
          (case submitChecks values of
             Some msg \<Rightarrow> (s1\<lparr> error := Some msg, loading := False \<rparr>, [])
           | None \<Rightarrow>
               let put = Put (bank_id bank) (submitBody bank values) in
               if update_ok env then
                 (case fetchUnassignedBank (form_reset (s1\<lparr> currentBank := None \<rparr>))
                         (refetch env) of
                    (s2, calls) \<Rightarrow> (s2\<lparr> loading := False \<rparr>, put # calls))
               else
                 (s1\<lparr> error := Some ''Failed to update bank information. Please try again.'',
                      loading := False \<rparr>, [put])))"

text \<open>
  \<^verbatim>\<open>form.handleSubmit(onSubmit)\<close>: the resolver validates the values of the form;
  \<^verbatim>\<open>onSubmit\<close> is called with the parsed values only when there is no issue.
\<close>

definition handleSubmit :: "State \<Rightarrow> UpdateEnv \<Rightarrow> State \<times> call list" where
  "handleSubmit s env =
     (case formSchema (formValues s) of
        Inl issues \<Rightarrow> (s\<lparr> formErrors := issues \<rparr>, [])
      | Inr values \<Rightarrow> onSubmit (s\<lparr> formErrors := [] \<rparr>) values env)"

text \<open>
  \<^verbatim>\<open>handleCancel\<close>. The settling delay between the PUT and the state updates changes
  no state.
\<close>

definition handleCancel :: "State \<Rightarrow> UpdateEnv \<Rightarrow> State \<times> call list" where
  "handleCancel s env =
     (case currentBank s of
        None \<Rightarrow> (s, [])
      | Some bank \<Rightarrow>
          let s1 = s\<lparr> loading := True, error := None \<rparr>;
              put = Put (bank_id bank) (cancelBody bank)
          in
          if update_ok env then
            (case fetchUnassignedBank (form_reset (s1\<lparr> currentBank := None \<rparr>))
                    (refetch env) of
               (s2, calls) \<Rightarrow> (s2\<lparr> loading := False \<rparr>, put # calls))
          else
            (s1\<lparr> error := Some ''Failed to cancel assignment. Please try again.'',
                 loading := False \<rparr>, [put]))"

section \<open>Example data\<close>

text \<open>
  The store of the scenario: record 1 is free, record 2 is held by Bob; the caller is
  Alice and holds no record yet.
\<close>

definition alice :: jsstring where "alice = js ''Alice''"

definition bank1 :: Bank where
  "bank1 = \<lparr> ufi = 1001, bankName = js ''State Bank'', ifscCode = js ''SBIN0000001'',
     branchName = js ''Main Branch'', address = js ''1 High Street'', updateAddress = None,
     updatedBranchName = None, userName = Some [], phoneNumber = None, response = None,
     remarks = None, bank_id = 1 \<rparr>"

definition bank2 :: Bank where
  "bank2 = \<lparr> ufi = 1002, bankName = js ''Union Bank'', ifscCode = js ''UBIN0000002'',
     branchName = js ''East Branch'', address = js ''2 Low Street'', updateAddress = None,
     updatedBranchName = None, userName = Some (js ''Bob''), phoneNumber = None, response = None,
     remarks = None, bank_id = 2 \<rparr>"

definition awaiting :: State where
  "awaiting = \<lparr> st_userName = alice, currentBank = None, loading = False, error = None,
     formValues = defaultValues, formErrors = [] \<rparr>"

text \<open>The double \<open>0.5\<close>.\<close>

definition half :: double01 where
  "half = (2 ^ 52, 53)"

definition store_ok :: FetchEnv where
  "store_ok = \<lparr> get_result = Some [bank1, bank2], random = half, put_ok = True \<rparr>"

text \<open>
  Alice holds record 1. Drafts: a complete one; one with a toll-free call and no response;
  one with an address change and no address. Outcomes of a handler's own PUT: it rejects,
  or it resolves and the next fetch finds no free record.
\<close>

definition presenting :: State where
  "presenting = awaiting\<lparr> currentBank := Some bank1 \<rparr>"

definition draft_ok :: FormValues where
  "draft_ok = \<lparr> v_phoneNumber = Defined (js ''9876543210''),
     v_phoneResponse = Defined toll_free, v_response = Defined address_change,
     v_updateAddress = Defined (js ''12 New Road, Pune''), v_updatedBranchName = Absent,
     v_remarks = Undefined \<rparr>"

definition draft_no_response :: FormValues where
  "draft_no_response = draft_ok\<lparr> v_response := Undefined, v_updateAddress := Absent \<rparr>"

definition draft_no_address :: FormValues where
  "draft_no_address = draft_ok\<lparr> v_updateAddress := Undefined \<rparr>"

definition update_fails :: UpdateEnv where
  "update_fails = \<lparr> update_ok = False, refetch = store_ok \<rparr>"

definition update_done :: UpdateEnv where
  "update_done = \<lparr> update_ok = True, refetch = store_ok\<lparr> get_result := Some [bank2] \<rparr> \<rparr>"


text \<open>
  Record 3 is free again after an earlier submission, which left an updated address and
  a response in it. The plain draft reports an unanswered call and has no key for the
  response, the address or the branch name.
\<close>

definition bank3 :: Bank where
  "bank3 = \<lparr> ufi = 1003, bankName = js ''Canara Bank'', ifscCode = js ''CNRB0000003'',
     branchName = js ''West Branch'', address = js ''3 Mill Road'',
     updateAddress = Some (js ''9 Old Lane, Old Town''),
     updatedBranchName = None, userName = Some [], phoneNumber = Some (js ''9123456780''),
     response = Some (js ''address_change''), remarks = Some [], bank_id = 3 \<rparr>"

definition draft_plain :: FormValues where
  "draft_plain = \<lparr> v_phoneNumber = Defined (js ''9876543210''),
     v_phoneResponse = Defined no_response, v_response = Absent,
     v_updateAddress = Absent, v_updatedBranchName = Absent, v_remarks = Defined [] \<rparr>"

section \<open>Properties of the assignment selector\<close>

lemma bits_bounds:
  "0 < n \<Longrightarrow> 2 ^ (bits n - 1) \<le> n \<and> n < 2 ^ bits n"
proof (induction n rule: bits.induct)
  case (1 n)
  show ?case
  proof (cases "n div 2 = 0")
    case True
    with "1.prems" have "n = 1" by presburger
    then show ?thesis by (simp add: bits.simps)
  next
    case False
    with "1.IH" "1.prems"
    have ih: "2 ^ (bits (n div 2) - 1) \<le> n div 2" "n div 2 < 2 ^ bits (n div 2)"
      by simp_all
    from False have pos: "0 < bits (n div 2)"
      by (simp add: bits.simps [of "n div 2"])
    have b: "bits n = Suc (bits (n div 2))"
      using "1.prems" by (simp add: bits.simps [of n])
    have "2 * 2 ^ (bits (n div 2) - 1) \<le> n"
      using ih(1) by presburger
    moreover have "2 * 2 ^ (bits (n div 2) - 1) = (2::nat) ^ bits (n div 2)"
      using pos by (cases "bits (n div 2)") simp_all
    moreover have "n < 2 * 2 ^ bits (n div 2)"
      using ih(2) by presburger
    ultimately show ?thesis
      using b by simp
  qed
qed


lemma round53_less:
  assumes m: "m < 2 ^ 53" and k: "53 \<le> k" and n: "0 < n"
  shows "round53 (m * n) < n * 2 ^ k"
proof -
  define p where "p = m * n"
  define s where "s = bits p - 53"
  define B :: nat where "B = 2 ^ 53"
  have m': "m < B" using m unfolding B_def .
  have K: "B \<le> 2 ^ k"
    unfolding B_def by (rule power_increasing [OF k]) simp
  have "p + n = (m + 1) * n" by (simp add: p_def)
  also have "\<dots> \<le> B * n"
    using m' by (intro mult_le_mono1) simp
  also have "\<dots> \<le> 2 ^ k * n"
    using K by (intro mult_le_mono1)
  finally have pn: "p + n \<le> n * 2 ^ k" by (simp add: mult.commute)
  have plt: "p < B * n"
    unfolding p_def using m' n by simp
  show ?thesis
  proof (cases "s = 0")
    case True
    then have "round53 p = p" by (simp add: round53_def s_def)
    with pn n show ?thesis unfolding p_def by linarith
  next
    case False
    then have s1: "s = Suc (s - 1)" by simp
    have bp: "bits p - 1 = 52 + s" using False unfolding s_def by linarith
    have ppos: "0 < p"
      using False unfolding s_def by (cases "p = 0") (simp_all add: bits.simps [of 0])
    have "(2::nat) ^ (52 + s) \<le> p"
      using bits_bounds [OF ppos] unfolding bp by blast
    with plt have "(2::nat) ^ (52 + s) < B * n" by linarith
    moreover have "(2::nat) ^ (52 + s) = B * 2 ^ (s - 1)"
    proof -
      have "52 + s = 53 + (s - 1)" using False by linarith
      then show ?thesis unfolding B_def by (simp only: power_add)
    qed
    ultimately have half: "(2::nat) ^ (s - 1) < n" by simp
    have two: "(2::nat) ^ s = 2 * 2 ^ (s - 1)" by (subst s1) simp
    define q where "q = p div 2 ^ s"
    define r where "r = p mod 2 ^ s"
    have pq: "p = q * 2 ^ s + r"
      unfolding q_def r_def by (rule div_mult_mod_eq [symmetric])
    show ?thesis
    proof (cases "2 * r > 2 ^ s \<or> (2 * r = 2 ^ s \<and> odd q)")
      case True
      then have up: "2 ^ s \<le> 2 * r" by auto
      have "round53 p = (q + 1) * 2 ^ s"
        using True False unfolding round53_def s_def [symmetric] q_def r_def Let_def by simp
      also have "\<dots> = q * 2 ^ s + 2 ^ s" by simp
      also have "\<dots> < q * 2 ^ s + r + n"
        using up half two by linarith
      also have "\<dots> \<le> n * 2 ^ k" using pn pq by linarith
      finally show ?thesis unfolding p_def .
    next
      case no: False
      have "round53 p = q * 2 ^ s"
        using no False unfolding round53_def s_def [symmetric] q_def r_def Let_def by simp
      also have "\<dots> \<le> p" using pq by linarith
      also have "\<dots> < n * 2 ^ k" using pn n by linarith
      finally show ?thesis unfolding p_def .
    qed
  qed
qed

lemma randomIndex_less: "is_random r \<Longrightarrow> 0 < n \<Longrightarrow> randomIndex r n < n"
  unfolding randomIndex_def is_random_def
  by (intro less_mult_imp_div_less round53_less) simp_all

lemma is_random_half: "is_random half"
  by (simp add: is_random_def half_def)

lemma randomIndex_one: "is_random r \<Longrightarrow> randomIndex r (Suc 0) = 0"
  using randomIndex_less [of r "Suc 0"] by simp

text \<open>The three ways \<open>fetchUnassignedBank\<close> ends, as rewrite rules.\<close>

lemma fetch_get_failed:
  "get_result env = None \<Longrightarrow>
   fetchUnassignedBank s env =
     (s\<lparr> loading := False, error := Some ''Failed to fetch bank details. Please try again.'' \<rparr>,
      [Get])"
  by (simp add: fetchUnassignedBank_def)

lemma fetch_none_unassigned:
  "get_result env = Some banks \<Longrightarrow> filter unassigned banks = [] \<Longrightarrow>
   fetchUnassignedBank s env =
     (s\<lparr> loading := False, error := Some ''No unassigned banks available at the moment.'' \<rparr>,
      [Get])"
  by (simp add: fetchUnassignedBank_def)

lemma fetch_chosen:
  "get_result env = Some banks \<Longrightarrow>
   index (filter unassigned banks) (randomIndex (random env) (length (filter unassigned banks)))
     = Some b \<Longrightarrow>
   fetchUnassignedBank s env =
     (if put_ok env
      then s\<lparr> loading := False, error := None, currentBank := Some b \<rparr>
      else s\<lparr> loading := False,
              error := Some ''Failed to fetch bank details. Please try again.'' \<rparr>,
      [Get, Put (bank_id b) (claimBody b (st_userName s))])"
  by (auto simp add: fetchUnassignedBank_def index_def Let_def split: if_splits)

lemma fetch_undefined:
  "get_result env = Some banks \<Longrightarrow> filter unassigned banks \<noteq> [] \<Longrightarrow>
   index (filter unassigned banks) (randomIndex (random env) (length (filter unassigned banks)))
     = None \<Longrightarrow>
   fetchUnassignedBank s env =
     (s\<lparr> loading := False, error := Some ''Failed to fetch bank details. Please try again.'' \<rparr>,
      [Get])"
  by (simp add: fetchUnassignedBank_def)

lemma index_Some_mem: "index xs i = Some x \<Longrightarrow> x \<in> set xs"
  by (auto simp add: index_def split: if_splits)

lemma unassigned_bank1: "unassigned bank1"
  by (simp add: unassigned_def bank1_def)

lemma assigned_bank2: "\<not> unassigned bank2"
  by (simp add: unassigned_def bank2_def js_def)


subsection \<open>No availability\<close>

text \<open>
  C4. When no record of the fetched set has an empty assignment field,
  \<^verbatim>\<open>fetchUnassignedBank\<close> ends with the message that no bank is available (not through
  its \<^verbatim>\<open>catch\<close> block), issues the GET only, hence no PUT, and leaves the current
  record as it was.
\<close>

theorem fetch_no_availability:
  assumes "get_result env = Some banks" and "\<forall>b\<in>set banks. \<not> unassigned b"
  shows "fetchUnassignedBank s env =
           (s\<lparr> loading := False, error := Some ''No unassigned banks available at the moment.'' \<rparr>,
            [Get])
         \<and> (\<forall>i body. Put i body \<notin> set (snd (fetchUnassignedBank s env)))
         \<and> currentBank (fst (fetchUnassignedBank s env)) = currentBank s"
proof -
  from assms(2) have "filter unassigned banks = []"
    by (simp add: filter_empty_conv)
  with assms(1) show ?thesis
    by (simp add: fetch_none_unassigned)
qed

theorem fetch_no_availability_witness:
  "get_result (store_ok\<lparr> get_result := Some [bank2] \<rparr>) = Some [bank2]
   \<and> \<not> unassigned bank2
   \<and> fetchUnassignedBank awaiting (store_ok\<lparr> get_result := Some [bank2] \<rparr>) =
       (awaiting\<lparr> loading := False,
                   error := Some ''No unassigned banks available at the moment.'' \<rparr>, [Get])"
proof -
  have a: "get_result (store_ok\<lparr> get_result := Some [bank2] \<rparr>) = Some [bank2]" by simp
  have b: "\<forall>b\<in>set [bank2]. \<not> unassigned b"
    by (simp add: unassigned_def bank2_def js_def)
  show ?thesis
    using a b fetch_no_availability [OF a b, of awaiting] by simp
qed

subsection \<open>Selection from the unassigned records\<close>

text \<open>
  C3, as stated, fails: the fetched set holds a record with an empty \<^verbatim>\<open>userName\<close>,
  yet with the claiming PUT rejected \<^verbatim>\<open>fetchUnassignedBank\<close> returns no record.
\<close>

theorem fetch_selects_counterexample:
  "get_result (store_ok\<lparr> put_ok := False \<rparr>) = Some [bank1, bank2]
   \<and> unassigned bank1
   \<and> is_random (random (store_ok\<lparr> put_ok := False \<rparr>))
   \<and> currentBank (fst (fetchUnassignedBank awaiting (store_ok\<lparr> put_ok := False \<rparr>))) = None"
proof -
  have a: "get_result (store_ok\<lparr> put_ok := False \<rparr>) = Some [bank1, bank2]"
    by (simp add: store_ok_def)
  have r: "is_random (random (store_ok\<lparr> put_ok := False \<rparr>))"
    by (simp add: store_ok_def is_random_half)
  have b: "index (filter unassigned [bank1, bank2])
             (randomIndex (random (store_ok\<lparr> put_ok := False \<rparr>))
                (length (filter unassigned [bank1, bank2]))) = Some bank1"
    by (simp add: unassigned_bank1 assigned_bank2 store_ok_def randomIndex_one is_random_half
          index_def)
  have "currentBank (fst (fetchUnassignedBank awaiting (store_ok\<lparr> put_ok := False \<rparr>))) = None"
    by (simp add: fetch_chosen [OF a b]) (simp add: awaiting_def)
  with a r unassigned_bank1 show ?thesis
    by simp
qed

text \<open>
  C3, amended. When the fetched set holds at least one record whose \<^verbatim>\<open>userName\<close> is
  empty or absent, the record \<^verbatim>\<open>fetchUnassignedBank\<close> picks, the one its claiming PUT
  addresses, is one of the fetched records with an empty assignment field, never one with
  a non-empty one. It becomes the current record when that PUT resolves; when the PUT
  rejects no record is returned and the current record stays as it was.
\<close>

theorem fetch_selects_unassigned:
  assumes get: "get_result env = Some banks"
      and some: "\<exists>b\<in>set banks. unassigned b"
      and rnd: "is_random (random env)"
  shows "\<exists>b. b \<in> set banks \<and> unassigned b
             \<and> snd (fetchUnassignedBank s env)
                 = [Get, Put (bank_id b) (claimBody b (st_userName s))]
             \<and> (put_ok env \<longrightarrow> currentBank (fst (fetchUnassignedBank s env)) = Some b)
             \<and> (\<not> put_ok env \<longrightarrow>
                  currentBank (fst (fetchUnassignedBank s env)) = currentBank s)"
proof -
  let ?us = "filter unassigned banks"
  let ?i = "randomIndex (random env) (length ?us)"
  from some have "0 < length ?us"
    by (simp add: filter_empty_conv)
  with rnd have lt: "?i < length ?us"
    by (rule randomIndex_less)
  then have ix: "index ?us ?i = Some (?us ! ?i)"
    by (simp add: index_def)
  from lt have "?us ! ?i \<in> set ?us"
    by (rule nth_mem)
  then have mem: "?us ! ?i \<in> set banks" "unassigned (?us ! ?i)"
    by simp_all
  show ?thesis
    using mem by (intro exI [of _ "?us ! ?i"]) (simp add: fetch_chosen [OF get ix])
qed

theorem fetch_selects_unassigned_witness:
  "get_result store_ok = Some [bank1, bank2]
   \<and> unassigned bank1
   \<and> is_random (random store_ok)
   \<and> snd (fetchUnassignedBank awaiting store_ok) = [Get, Put 1 (claimBody bank1 alice)]
   \<and> currentBank (fst (fetchUnassignedBank awaiting store_ok)) = Some bank1"
proof -
  have a: "get_result store_ok = Some [bank1, bank2]"
    by (simp add: store_ok_def)
  have b: "\<exists>b\<in>set [bank1, bank2]. unassigned b"
    using unassigned_bank1 by simp
  have c: "is_random (random store_ok)"
    by (simp add: store_ok_def is_random_half)
  have d: "put_ok store_ok"
    by (simp add: store_ok_def)
  from fetch_selects_unassigned [OF a b c, of awaiting]
  obtain x where x: "x \<in> set [bank1, bank2]" "unassigned x"
    "snd (fetchUnassignedBank awaiting store_ok)
       = [Get, Put (bank_id x) (claimBody x (st_userName awaiting))]"
    "put_ok store_ok \<longrightarrow> currentBank (fst (fetchUnassignedBank awaiting store_ok)) = Some x"
    by blast
  from x(1,2) have "x = bank1"
    using assigned_bank2 by auto
  with x(3,4) a c d unassigned_bank1 show ?thesis
    by (simp add: bank1_def awaiting_def)
qed

subsection \<open>The random index is in range\<close>

text \<open>
  C10. For a list of length \<open>n \<ge> 1\<close> the index
  \<^verbatim>\<open>Math.floor(Math.random() * n)\<close> lies in \<open>[0, n - 1]\<close>, with the product rounded
  as doubles are, so the indexed read yields an element of the list and never
  \<^verbatim>\<open>undefined\<close>.
\<close>

theorem randomIndex_in_bounds:
  assumes "is_random r" and "1 \<le> length xs"
  shows "randomIndex r (length xs) \<le> length xs - 1
         \<and> index xs (randomIndex r (length xs)) = Some (xs ! randomIndex r (length xs))"
proof -
  from assms(2) have "0 < length xs"
    by (cases xs) simp_all
  with assms(1) have "randomIndex r (length xs) < length xs"
    by (rule randomIndex_less)
  then show ?thesis
    by (simp add: index_def)
qed

theorem randomIndex_in_bounds_witness:
  "is_random half \<and> 1 \<le> length [bank1]
   \<and> randomIndex half (length [bank1]) = 0
   \<and> index [bank1] (randomIndex half (length [bank1])) = Some bank1"
  using randomIndex_in_bounds [of half "[bank1]"] is_random_half
  by (simp add: index_def)

subsection \<open>A failed claim\<close>

text \<open>
  C1, as stated, fails: with record 1 chosen and its claiming PUT rejected,
  \<^verbatim>\<open>fetchUnassignedBank\<close> has issued the PUT, yet no current record is set; the
  \<^verbatim>\<open>await\<close> throws into the \<^verbatim>\<open>catch\<close> block before \<^verbatim>\<open>setCurrentBank\<close>.
\<close>

theorem fetch_claim_failure_counterexample:
  "snd (fetchUnassignedBank awaiting (store_ok\<lparr> put_ok := False \<rparr>))
     = [Get, Put 1 (claimBody bank1 alice)]
   \<and> currentBank (fst (fetchUnassignedBank awaiting (store_ok\<lparr> put_ok := False \<rparr>))) = None
   \<and> error (fst (fetchUnassignedBank awaiting (store_ok\<lparr> put_ok := False \<rparr>)))
       = Some ''Failed to fetch bank details. Please try again.''"
proof -
  have a: "get_result (store_ok\<lparr> put_ok := False \<rparr>) = Some [bank1, bank2]"
    by (simp add: store_ok_def)
  have b: "index (filter unassigned [bank1, bank2])
             (randomIndex (random (store_ok\<lparr> put_ok := False \<rparr>))
                (length (filter unassigned [bank1, bank2]))) = Some bank1"
    by (simp add: unassigned_bank1 assigned_bank2 store_ok_def randomIndex_one is_random_half
          index_def)
  show ?thesis
    by (simp add: fetch_chosen [OF a b]) (simp add: awaiting_def bank1_def)
qed

text \<open>
  C1, amended. \<^verbatim>\<open>fetchUnassignedBank\<close> issues the claiming PUT for the chosen record;
  when the PUT resolves, the chosen record, as fetched, becomes the current one; when it
  rejects, the state keeps its current record and carries the fetch-failure message.
\<close>

theorem fetch_claim_outcome:
  assumes get: "get_result env = Some banks"
      and some: "\<exists>b\<in>set banks. unassigned b"
      and rnd: "is_random (random env)"
  shows "\<exists>b. b \<in> set banks \<and> unassigned b
           \<and> snd (fetchUnassignedBank s env)
               = [Get, Put (bank_id b) (claimBody b (st_userName s))]
           \<and> fst (fetchUnassignedBank s env)
               = (if put_ok env
                  then s\<lparr> loading := False, error := None, currentBank := Some b \<rparr>
                  else s\<lparr> loading := False,
                          error := Some ''Failed to fetch bank details. Please try again.'' \<rparr>)"
proof -
  let ?us = "filter unassigned banks"
  let ?i = "randomIndex (random env) (length ?us)"
  from some have "0 < length ?us"
    by (simp add: filter_empty_conv)
  with rnd have lt: "?i < length ?us"
    by (rule randomIndex_less)
  then have ix: "index ?us ?i = Some (?us ! ?i)"
    by (simp add: index_def)
  from lt have "?us ! ?i \<in> set ?us"
    by (rule nth_mem)
  then have mem: "?us ! ?i \<in> set banks" "unassigned (?us ! ?i)"
    by simp_all
  show ?thesis
    using mem by (intro exI [of _ "?us ! ?i"]) (simp add: fetch_chosen [OF get ix])
qed

theorem fetch_claim_outcome_witness:
  "get_result (store_ok\<lparr> put_ok := False \<rparr>) = Some [bank1, bank2]
   \<and> unassigned bank1
   \<and> is_random (random (store_ok\<lparr> put_ok := False \<rparr>))
   \<and> fst (fetchUnassignedBank awaiting (store_ok\<lparr> put_ok := False \<rparr>))
       = awaiting\<lparr> loading := False,
                  error := Some ''Failed to fetch bank details. Please try again.'' \<rparr>"
proof -
  have a: "get_result (store_ok\<lparr> put_ok := False \<rparr>) = Some [bank1, bank2]"
    by (simp add: store_ok_def)
  have b: "\<exists>b\<in>set [bank1, bank2]. unassigned b"
    using unassigned_bank1 by simp
  have c: "is_random (random (store_ok\<lparr> put_ok := False \<rparr>))"
    by (simp add: store_ok_def is_random_half)
  from fetch_claim_outcome [OF a b c, of awaiting]
  have "fst (fetchUnassignedBank awaiting (store_ok\<lparr> put_ok := False \<rparr>))
       = awaiting\<lparr> loading := False,
                  error := Some ''Failed to fetch bank details. Please try again.'' \<rparr>"
    by auto
  with a c unassigned_bank1 show ?thesis
    by simp
qed

section \<open>Properties of the form schema\<close>

lemma phone_good: "phoneNumber_issues (js ''9876543210'') = []"
  by (simp add: phoneNumber_issues_def js_def digits_only_def is_digit_def)

lemma phone_zero:
  "phoneNumber_issues (js ''09876543210'') = [''Phone number should not start with 0'']"
  by (simp add: phoneNumber_issues_def js_def digits_only_def is_digit_def)

lemma address_good: "updateAddress_issues (js ''12 New Road, Pune'') = []"
  by (simp add: updateAddress_issues_def js_def address_chars_def is_digit_def is_lower_def
        is_upper_def is_space_def trim_def)

lemma schema_draft_ok: "schema_issues draft_ok = []"
  by (simp add: schema_issues_def draft_ok_def phone_good address_good)

lemma formSchema_draft_ok: "formSchema draft_ok = Inr (draft_ok\<lparr> v_remarks := Defined [] \<rparr>)"
  by (simp add: formSchema_def schema_draft_ok) (simp add: draft_ok_def)

lemma schema_draft_no_response: "schema_issues draft_no_response = []"
  by (simp add: schema_issues_def draft_no_response_def draft_ok_def phone_good)

lemma schema_draft_no_address: "schema_issues draft_no_address = []"
  by (simp add: schema_issues_def draft_no_address_def draft_ok_def phone_good)

lemma schema_draft_plain: "schema_issues draft_plain = []"
  by (simp add: schema_issues_def draft_plain_def phone_good remarks_issues_def)

lemma formSchema_draft_plain: "formSchema draft_plain = Inr draft_plain"
  by (simp add: formSchema_def schema_draft_plain) (simp add: draft_plain_def)

lemma submitChecks_draft_plain: "submitChecks draft_plain = None"
  by (simp add: submitChecks_def draft_plain_def)

lemma formSchema_Inr:
  "formSchema d = Inr values \<longleftrightarrow>
     schema_issues d = []
     \<and> values = d\<lparr> v_remarks :=
                     Defined (case value_of (v_remarks d) of None \<Rightarrow> [] | Some val \<Rightarrow> val) \<rparr>"
  by (auto simp add: formSchema_def)

subsection \<open>The phone number rule\<close>

text \<open>
  C9. The validator of \<^verbatim>\<open>phoneNumber\<close> rejects \<^verbatim>\<open>"09876543210"\<close>, for its leading
  zero only, and accepts \<^verbatim>\<open>"9876543210"\<close>; a string passes exactly when it has 10 to
  15 code units, all of them digits, and does not start with \<^verbatim>\<open>'0'\<close>.
\<close>

theorem phoneNumber_rule:
  "phoneNumber_issues (js ''09876543210'') = [''Phone number should not start with 0'']
   \<and> phoneNumber_issues (js ''9876543210'') = []
   \<and> (phoneNumber_issues val = [] \<longleftrightarrow>
        10 \<le> length val \<and> length val \<le> 15
        \<and> (\<forall>c\<in>set val. 0x30 \<le> c \<and> c \<le> 0x39)
        \<and> (\<nexists>cs. val = 0x30 # cs))"
proof -
  have "startsWith0 val \<longleftrightarrow> (\<exists>cs. val = 0x30 # cs)"
    by (cases val) auto
  moreover have "10 \<le> length val \<Longrightarrow> val \<noteq> []"
    by auto
  ultimately have "phoneNumber_issues val = [] \<longleftrightarrow>
        10 \<le> length val \<and> length val \<le> 15
        \<and> (\<forall>c\<in>set val. 0x30 \<le> c \<and> c \<le> 0x39)
        \<and> (\<nexists>cs. val = 0x30 # cs)"
    by (auto simp add: phoneNumber_issues_def digits_only_def is_digit_def list_all_iff)
  then show ?thesis
    using phone_good phone_zero by simp
qed

theorem phoneNumber_rule_witness:
  "phoneNumber_issues (js ''987654321'') \<noteq> [] \<and> length (js ''987654321'') = 9"
  using phoneNumber_rule [of "js ''987654321''"]
  by (simp add: js_def)

section \<open>Properties of submission\<close>

lemma submitChecks_remarks [simp]:
  "submitChecks (d\<lparr> v_remarks := x \<rparr>) = submitChecks d"
  by (simp add: submitChecks_def)

lemma handleSubmit_invalid:
  "schema_issues (formValues s) \<noteq> [] \<Longrightarrow>
   handleSubmit s env = (s\<lparr> formErrors := schema_issues (formValues s) \<rparr>, [])"
  by (simp add: handleSubmit_def formSchema_def)

lemma handleSubmit_rejected:
  "schema_issues (formValues s) = [] \<Longrightarrow> submitChecks (formValues s) = Some msg \<Longrightarrow>
   handleSubmit s env =
     (case currentBank s of
        None \<Rightarrow> (s\<lparr> formErrors := [] \<rparr>, [])
      | Some bank \<Rightarrow> (s\<lparr> formErrors := [], loading := False, error := Some msg \<rparr>, []))"
  by (simp add: handleSubmit_def formSchema_def onSubmit_def split: option.splits)

lemma handleSubmit_put:
  "formSchema (formValues s) = Inr values \<Longrightarrow> submitChecks values = None \<Longrightarrow>
   currentBank s = Some bank \<Longrightarrow>
   \<exists>rest. snd (handleSubmit s env) = Put (bank_id bank) (submitBody bank values) # rest"
  by (simp add: handleSubmit_def onSubmit_def Let_def split: prod.splits)

lemma fetch_loading: "loading (fst (fetchUnassignedBank s env)) = False"
  by (simp add: fetchUnassignedBank_def Let_def split: option.splits)

lemma fetch_formValues: "formValues (fst (fetchUnassignedBank s env)) = formValues s"
  by (simp add: fetchUnassignedBank_def Let_def split: option.splits)

lemma fetch_currentBank:
  "currentBank (fst (fetchUnassignedBank s env)) = Some b \<Longrightarrow>
   currentBank s = Some b
   \<or> (\<exists>banks. get_result env = Some banks \<and> b \<in> set banks \<and> unassigned b)"
  by (auto simp add: fetchUnassignedBank_def Let_def
        split: option.splits if_splits dest: index_Some_mem)

subsection \<open>A successful call needs a response\<close>

text \<open>
  C5. When the draft has \<^verbatim>\<open>phoneResponse\<close> \<^verbatim>\<open>toll_free\<close> or
  \<^verbatim>\<open>registered_only\<close> and no \<^verbatim>\<open>response\<close>, submitting issues no request at all and
  keeps the current record: either the schema reports issues, or, with a record held, the
  first check of \<^verbatim>\<open>onSubmit\<close> sets its message.
\<close>

theorem submit_requires_response:
  assumes pr: "value_of (v_phoneResponse (formValues s)) \<in> {Some toll_free, Some registered_only}"
      and r: "value_of (v_response (formValues s)) = None"
  shows "snd (handleSubmit s env) = []
         \<and> currentBank (fst (handleSubmit s env)) = currentBank s
         \<and> (schema_issues (formValues s) \<noteq> [] \<longrightarrow>
              fst (handleSubmit s env) = s\<lparr> formErrors := schema_issues (formValues s) \<rparr>)
         \<and> (schema_issues (formValues s) = [] \<longrightarrow> currentBank s \<noteq> None \<longrightarrow>
              fst (handleSubmit s env) =
                s\<lparr> formErrors := [], loading := False,
                   error := Some ''Response type is required for successful calls'' \<rparr>)"
proof (cases "schema_issues (formValues s) = []")
  case False
  then show ?thesis
    by (simp add: handleSubmit_invalid)
next
  case True
  from pr r have "submitChecks (formValues s)
                    = Some ''Response type is required for successful calls''"
    by (simp add: submitChecks_def)
  with True show ?thesis
    by (auto simp add: handleSubmit_rejected split: option.splits)
qed

theorem submit_requires_response_witness:
  "value_of (v_phoneResponse (formValues (presenting\<lparr> formValues := draft_no_response \<rparr>)))
     \<in> {Some toll_free, Some registered_only}
   \<and> value_of (v_response (formValues (presenting\<lparr> formValues := draft_no_response \<rparr>))) = None
   \<and> snd (handleSubmit (presenting\<lparr> formValues := draft_no_response \<rparr>) update_done) = []
   \<and> error (fst (handleSubmit (presenting\<lparr> formValues := draft_no_response \<rparr>) update_done))
       = Some ''Response type is required for successful calls''"
proof -
  let ?s = "presenting\<lparr> formValues := draft_no_response \<rparr>"
  have a: "value_of (v_phoneResponse (formValues ?s)) \<in> {Some toll_free, Some registered_only}"
    by (simp add: draft_no_response_def draft_ok_def)
  have b: "value_of (v_response (formValues ?s)) = None"
    by (simp add: draft_no_response_def draft_ok_def)
  have c: "schema_issues (formValues ?s) = []"
    by (simp add: schema_draft_no_response)
  have d: "currentBank ?s \<noteq> None"
    by (simp add: presenting_def)
  from submit_requires_response [OF a b, of update_done] c d a b show ?thesis
    by simp
qed

subsection \<open>A response needs its field\<close>

text \<open>
  C6. When the response is \<^verbatim>\<open>address_change\<close> or \<^verbatim>\<open>bank_shift\<close> and
  \<^verbatim>\<open>updateAddress\<close> is empty or absent, or the response is
  \<^verbatim>\<open>branch_name_change\<close> and \<^verbatim>\<open>updatedBranchName\<close> is empty or absent, submitting
  issues no request and keeps the current record. The schema comes first: when it reports
  issues (as it does for an empty string in either field) only they are recorded; when it
  passes and a record is held, the message is the one of the check for that response, the
  check on the phone response before it not firing since a response is set.
\<close>

theorem submit_requires_fields:
  assumes resp: "value_of (v_response (formValues s)) = Some r"
      and miss: "(r = address_change \<and> falsy (value_of (v_updateAddress (formValues s))))
               \<or> (r = branch_name_change \<and> falsy (value_of (v_updatedBranchName (formValues s))))
               \<or> (r = bank_shift \<and> falsy (value_of (v_updateAddress (formValues s))))"
  shows "snd (handleSubmit s env) = []
         \<and> currentBank (fst (handleSubmit s env)) = currentBank s
         \<and> (schema_issues (formValues s) \<noteq> [] \<longrightarrow>
              fst (handleSubmit s env) = s\<lparr> formErrors := schema_issues (formValues s) \<rparr>)
         \<and> (schema_issues (formValues s) = [] \<longrightarrow> currentBank s \<noteq> None \<longrightarrow>
              fst (handleSubmit s env) =
                s\<lparr> formErrors := [], loading := False,
                   error := Some
                     (if r = address_change
                      then ''Updated address is required for address change''
                      else if r = branch_name_change
                      then ''Updated branch name is required for branch name change''
                      else ''Updated address is required for bank shift'') \<rparr>)
         \<and> (value_of (v_updateAddress (formValues s)) = Some [] \<longrightarrow>
              schema_issues (formValues s) \<noteq> [])
         \<and> (value_of (v_updatedBranchName (formValues s)) = Some [] \<longrightarrow>
              schema_issues (formValues s) \<noteq> [])"
proof -
  have empty: "(value_of (v_updateAddress (formValues s)) = Some [] \<longrightarrow>
              schema_issues (formValues s) \<noteq> [])
         \<and> (value_of (v_updatedBranchName (formValues s)) = Some [] \<longrightarrow>
              schema_issues (formValues s) \<noteq> [])"
    by (simp add: schema_issues_def updateAddress_issues_def updatedBranchName_issues_def)
  show ?thesis
  proof (cases "schema_issues (formValues s) = []")
    case False
    then show ?thesis
      using empty by (simp add: handleSubmit_invalid)
  next
    case True
    from resp miss have "submitChecks (formValues s)
        = Some (if r = address_change
                then ''Updated address is required for address change''
                else if r = branch_name_change
                then ''Updated branch name is required for branch name change''
                else ''Updated address is required for bank shift'')"
      by (auto simp add: submitChecks_def)
    with True show ?thesis
      using empty by (auto simp add: handleSubmit_rejected split: option.splits)
  qed
qed

theorem submit_requires_fields_witness:
  "value_of (v_response (formValues (presenting\<lparr> formValues := draft_no_address \<rparr>)))
     = Some address_change
   \<and> falsy (value_of (v_updateAddress (formValues (presenting\<lparr> formValues := draft_no_address \<rparr>))))
   \<and> snd (handleSubmit (presenting\<lparr> formValues := draft_no_address \<rparr>) update_done) = []
   \<and> error (fst (handleSubmit (presenting\<lparr> formValues := draft_no_address \<rparr>) update_done))
       = Some ''Updated address is required for address change''"
proof -
  let ?s = "presenting\<lparr> formValues := draft_no_address \<rparr>"
  have a: "value_of (v_response (formValues ?s)) = Some address_change"
    by (simp add: draft_no_address_def draft_ok_def)
  have b: "falsy (value_of (v_updateAddress (formValues ?s)))"
    by (simp add: draft_no_address_def draft_ok_def)
  have c: "schema_issues (formValues ?s) = []"
    by (simp add: schema_draft_no_address)
  have d: "currentBank ?s \<noteq> None"
    by (simp add: presenting_def)
  from submit_requires_fields [OF a, of update_done] b c d a show ?thesis
    by simp
qed

subsection \<open>The body of a submission\<close>

text \<open>
  C8, as stated, fails: record 3 is held and the plain draft, which is valid, has no key
  for the address or the response; the body submitted carries the address and the
  response that the record held before, which are neither descriptive fields nor values
  of the caller.
\<close>

theorem submit_body_stale_counterexample:
  "currentBank (awaiting\<lparr> currentBank := Some bank3, formValues := draft_plain \<rparr>) = Some bank3
   \<and> formSchema (formValues (awaiting\<lparr> currentBank := Some bank3, formValues := draft_plain \<rparr>))
       = Inr draft_plain
   \<and> submitChecks draft_plain = None
   \<and> v_updateAddress draft_plain = Absent
   \<and> v_response draft_plain = Absent
   \<and> snd (handleSubmit (awaiting\<lparr> currentBank := Some bank3, formValues := draft_plain \<rparr>)
            update_fails)
       = [Put 3 (submitBody bank3 draft_plain)]
   \<and> updateAddress (submitBody bank3 draft_plain) = Some (js ''9 Old Lane, Old Town'')
   \<and> response (submitBody bank3 draft_plain) = Some (js ''address_change'')"
proof -
  let ?s = "awaiting\<lparr> currentBank := Some bank3, formValues := draft_plain \<rparr>"
  have calls: "snd (handleSubmit ?s update_fails) = [Put 3 (submitBody bank3 draft_plain)]"
    by (simp add: handleSubmit_def formSchema_draft_plain onSubmit_def
          submitChecks_draft_plain update_fails_def Let_def)
       (simp add: bank3_def)
  have body: "updateAddress (submitBody bank3 draft_plain) = Some (js ''9 Old Lane, Old Town'')"
      "response (submitBody bank3 draft_plain) = Some (js ''address_change'')"
    by (simp_all add: submitBody_def spread_def draft_plain_def bank3_def)
  have abs: "v_updateAddress draft_plain = Absent" "v_response draft_plain = Absent"
    by (simp_all add: draft_plain_def)
  show ?thesis
    using calls body abs by (simp add: formSchema_draft_plain submitChecks_draft_plain)
qed

text \<open>
  C8, amended. For a held record and a draft that passes the schema and the checks,
  submitting issues a PUT for that record whose body is exactly this: the record's
  \<^verbatim>\<open>bankName\<close>, \<^verbatim>\<open>ifscCode\<close>, \<^verbatim>\<open>branchName\<close> and \<^verbatim>\<open>address\<close>, and its
  \<^verbatim>\<open>ufi\<close>, \<^verbatim>\<open>id\<close> and \<^verbatim>\<open>userName\<close>, unchanged; the validated
  \<^verbatim>\<open>phoneNumber\<close>, \<^verbatim>\<open>phoneResponse\<close> and \<^verbatim>\<open>remarks\<close> of the draft; and for
  each of \<^verbatim>\<open>response\<close>, \<^verbatim>\<open>updateAddress\<close> and \<^verbatim>\<open>updatedBranchName\<close> the
  validated value of the draft where it is defined, nothing where the draft holds the key
  with \<^verbatim>\<open>undefined\<close>, and the value the record had where the draft has no such key.
\<close>

theorem submit_body_frame:
  assumes held: "currentBank s = Some bank"
      and valid: "formSchema (formValues s) = Inr values"
      and checks: "submitChecks values = None"
  shows "\<exists>p r. v_phoneNumber (formValues s) = Defined p \<and> phoneNumber_issues p = []
           \<and> v_phoneResponse (formValues s) = Defined r
           \<and> (\<exists>rest. snd (handleSubmit s env)
                        = Put (bank_id bank) (submitBody bank values) # rest)
           \<and> submitBody bank values =
               \<lparr> ufi = ufi bank, bankName = bankName bank, ifscCode = ifscCode bank,
                 branchName = branchName bank, address = address bank,
                 updateAddress =
                   (case v_updateAddress (formValues s) of
                      Absent \<Rightarrow> updateAddress bank | Undefined \<Rightarrow> None | Defined a \<Rightarrow> Some a),
                 updatedBranchName =
                   (case v_updatedBranchName (formValues s) of
                      Absent \<Rightarrow> updatedBranchName bank | Undefined \<Rightarrow> None
                    | Defined n \<Rightarrow> Some n),
                 userName = userName bank,
                 phoneNumber = Some p,
                 response =
                   (case v_response (formValues s) of
                      Absent \<Rightarrow> response bank | Undefined \<Rightarrow> None
                    | Defined x \<Rightarrow> Some (Response_name x)),
                 remarks =
                   Some (case value_of (v_remarks (formValues s)) of
                           None \<Rightarrow> [] | Some val \<Rightarrow> val),
                 bank_id = bank_id bank,
                 phoneResponse = Some (PhoneResponse_name r) \<rparr>
           \<and> (\<forall>a. v_updateAddress (formValues s) = Defined a \<longrightarrow> updateAddress_issues a = [])
           \<and> (\<forall>n. v_updatedBranchName (formValues s) = Defined n \<longrightarrow>
                  updatedBranchName_issues n = [])
           \<and> (\<forall>val. v_remarks (formValues s) = Defined val \<longrightarrow> length val \<le> 500)"
proof -
  from valid have ok: "schema_issues (formValues s) = []"
    and v: "values = (formValues s)\<lparr> v_remarks :=
              Defined (case value_of (v_remarks (formValues s)) of
                         None \<Rightarrow> [] | Some val \<Rightarrow> val) \<rparr>"
    by (simp_all add: formSchema_Inr)
  from ok obtain p where p: "v_phoneNumber (formValues s) = Defined p" "phoneNumber_issues p = []"
    by (cases "v_phoneNumber (formValues s)") (simp_all add: schema_issues_def)
  from ok obtain r where r: "v_phoneResponse (formValues s) = Defined r"
    by (cases "v_phoneResponse (formValues s)") (simp_all add: schema_issues_def)
  have ua: "\<forall>a. v_updateAddress (formValues s) = Defined a \<longrightarrow> updateAddress_issues a = []"
    using ok by (auto simp add: schema_issues_def)
  have ub: "\<forall>n. v_updatedBranchName (formValues s) = Defined n \<longrightarrow>
              updatedBranchName_issues n = []"
    using ok by (auto simp add: schema_issues_def)
  have rm: "\<forall>val. v_remarks (formValues s) = Defined val \<longrightarrow> length val \<le> 500"
    using ok by (auto simp add: schema_issues_def remarks_issues_def split: if_splits)
  have put: "\<exists>rest. snd (handleSubmit s env)
               = Put (bank_id bank) (submitBody bank values) # rest"
    using valid checks held by (rule handleSubmit_put)
  have body: "submitBody bank values =
               \<lparr> ufi = ufi bank, bankName = bankName bank, ifscCode = ifscCode bank,
                 branchName = branchName bank, address = address bank,
                 updateAddress =
                   (case v_updateAddress (formValues s) of
                      Absent \<Rightarrow> updateAddress bank | Undefined \<Rightarrow> None | Defined a \<Rightarrow> Some a),
                 updatedBranchName =
                   (case v_updatedBranchName (formValues s) of
                      Absent \<Rightarrow> updatedBranchName bank | Undefined \<Rightarrow> None
                    | Defined n \<Rightarrow> Some n),
                 userName = userName bank,
                 phoneNumber = Some p,
                 response =
                   (case v_response (formValues s) of
                      Absent \<Rightarrow> response bank | Undefined \<Rightarrow> None
                    | Defined x \<Rightarrow> Some (Response_name x)),
                 remarks =
                   Some (case value_of (v_remarks (formValues s)) of
                           None \<Rightarrow> [] | Some val \<Rightarrow> val),
                 bank_id = bank_id bank,
                 phoneResponse = Some (PhoneResponse_name r) \<rparr>"
    using p r by (simp add: v submitBody_def spread_def split: optional.splits)
  show ?thesis
    using p r put body ua ub rm by blast
qed

theorem submit_body_frame_witness:
  "currentBank (presenting\<lparr> formValues := draft_ok \<rparr>) = Some bank1
   \<and> formSchema (formValues (presenting\<lparr> formValues := draft_ok \<rparr>))
       = Inr (draft_ok\<lparr> v_remarks := Defined [] \<rparr>)
   \<and> submitChecks (draft_ok\<lparr> v_remarks := Defined [] \<rparr>) = None
   \<and> address (submitBody bank1 (draft_ok\<lparr> v_remarks := Defined [] \<rparr>)) = js ''1 High Street''
   \<and> updateAddress (submitBody bank1 (draft_ok\<lparr> v_remarks := Defined [] \<rparr>))
       = Some (js ''12 New Road, Pune'')
   \<and> updatedBranchName (submitBody bank1 (draft_ok\<lparr> v_remarks := Defined [] \<rparr>)) = None"
proof -
  let ?s = "presenting\<lparr> formValues := draft_ok \<rparr>"
  let ?v = "draft_ok\<lparr> v_remarks := Defined [] \<rparr>"
  have a: "currentBank ?s = Some bank1"
    by (simp add: presenting_def)
  have b: "formSchema (formValues ?s) = Inr ?v"
    by (simp add: formSchema_draft_ok)
  have c: "submitChecks ?v = None"
    by (simp add: submitChecks_def draft_ok_def js_def)
  have d: "address bank1 = js ''1 High Street''" "updatedBranchName bank1 = None"
    by (simp_all add: bank1_def)
  have e: "v_updateAddress (formValues ?s) = Defined (js ''12 New Road, Pune'')"
      "v_updatedBranchName (formValues ?s) = Absent"
    by (simp_all add: draft_ok_def)
  from submit_body_frame [OF a b c, of update_done]
  obtain p r where
    "submitBody bank1 ?v =
       \<lparr> ufi = ufi bank1, bankName = bankName bank1, ifscCode = ifscCode bank1,
         branchName = branchName bank1, address = address bank1,
         updateAddress =
           (case v_updateAddress (formValues ?s) of
              Absent \<Rightarrow> updateAddress bank1 | Undefined \<Rightarrow> None | Defined a \<Rightarrow> Some a),
         updatedBranchName =
           (case v_updatedBranchName (formValues ?s) of
              Absent \<Rightarrow> updatedBranchName bank1 | Undefined \<Rightarrow> None | Defined n \<Rightarrow> Some n),
         userName = userName bank1,
         phoneNumber = Some p,
         response =
           (case v_response (formValues ?s) of
              Absent \<Rightarrow> response bank1 | Undefined \<Rightarrow> None
            | Defined x \<Rightarrow> Some (Response_name x)),
         remarks =
           Some (case value_of (v_remarks (formValues ?s)) of None \<Rightarrow> [] | Some val \<Rightarrow> val),
         bank_id = bank_id bank1,
         phoneResponse = Some (PhoneResponse_name r) \<rparr>"
    by blast
  then have "address (submitBody bank1 ?v) = js ''1 High Street''"
      "updateAddress (submitBody bank1 ?v) = Some (js ''12 New Road, Pune'')"
      "updatedBranchName (submitBody bank1 ?v) = None"
    using d e by simp_all
  with a b c show ?thesis
    by simp
qed



subsection \<open>Cancelling\<close>

text \<open>
  C7, as stated, fails: when the PUT of \<^verbatim>\<open>handleCancel\<close> rejects, the held record
  stays the current one and no fetch follows.
\<close>

theorem handleCancel_failure_counterexample:
  "snd (handleCancel presenting update_fails) = [Put 1 (cancelBody bank1)]
   \<and> currentBank (fst (handleCancel presenting update_fails)) = Some bank1
   \<and> error (fst (handleCancel presenting update_fails))
       = Some ''Failed to cancel assignment. Please try again.''"
  by (simp add: handleCancel_def presenting_def update_fails_def Let_def)
     (simp add: bank1_def)

text \<open>
  C7, amended. Cancelling a held record issues a PUT for it whose body has
  \<^verbatim>\<open>userName\<close>, \<^verbatim>\<open>phoneNumber\<close>, \<^verbatim>\<open>response\<close>, \<^verbatim>\<open>updateAddress\<close>,
  \<^verbatim>\<open>updatedBranchName\<close> and \<^verbatim>\<open>remarks\<close> set to the empty string and the other
  fields of the record. When the PUT resolves, the record is cleared, the draft reset and
  \<^verbatim>\<open>fetchUnassignedBank\<close> run from there, so the current record afterwards is none or
  an unassigned record of the new fetch. When the PUT rejects, the state keeps the record
  and carries the cancel-failure message.
\<close>

theorem handleCancel_outcome:
  assumes held: "currentBank s = Some bank"
  shows "(\<exists>rest. snd (handleCancel s env) = Put (bank_id bank) (cancelBody bank) # rest)
         \<and> userName (cancelBody bank) = Some [] \<and> phoneNumber (cancelBody bank) = Some []
         \<and> response (cancelBody bank) = Some [] \<and> updateAddress (cancelBody bank) = Some []
         \<and> updatedBranchName (cancelBody bank) = Some [] \<and> remarks (cancelBody bank) = Some []
         \<and> bankName (cancelBody bank) = bankName bank \<and> ifscCode (cancelBody bank) = ifscCode bank
         \<and> branchName (cancelBody bank) = branchName bank \<and> address (cancelBody bank) = address bank
         \<and> ufi (cancelBody bank) = ufi bank \<and> bank_id (cancelBody bank) = bank_id bank
         \<and> (update_ok env \<longrightarrow>
              handleCancel s env =
                (fst (fetchUnassignedBank
                        (form_reset (s\<lparr> loading := True, error := None, currentBank := None \<rparr>))
                        (refetch env)),
                 Put (bank_id bank) (cancelBody bank)
                   # snd (fetchUnassignedBank
                            (form_reset (s\<lparr> loading := True, error := None, currentBank := None \<rparr>))
                            (refetch env)))
              \<and> formValues (fst (handleCancel s env)) = defaultValues
              \<and> (currentBank (fst (handleCancel s env)) = None
                  \<or> (\<exists>banks b. get_result (refetch env) = Some banks \<and> b \<in> set banks
                        \<and> unassigned b \<and> currentBank (fst (handleCancel s env)) = Some b)))
         \<and> (\<not> update_ok env \<longrightarrow>
              handleCancel s env =
                (s\<lparr> loading := False,
                    error := Some ''Failed to cancel assignment. Please try again.'' \<rparr>,
                 [Put (bank_id bank) (cancelBody bank)]))"
proof -
  let ?c = "form_reset (s\<lparr> loading := True, error := None, currentBank := None \<rparr>)"
  let ?f = "fetchUnassignedBank ?c (refetch env)"
  have body: "userName (cancelBody bank) = Some [] \<and> phoneNumber (cancelBody bank) = Some []
         \<and> response (cancelBody bank) = Some [] \<and> updateAddress (cancelBody bank) = Some []
         \<and> updatedBranchName (cancelBody bank) = Some [] \<and> remarks (cancelBody bank) = Some []
         \<and> bankName (cancelBody bank) = bankName bank \<and> ifscCode (cancelBody bank) = ifscCode bank
         \<and> branchName (cancelBody bank) = branchName bank \<and> address (cancelBody bank) = address bank
         \<and> ufi (cancelBody bank) = ufi bank \<and> bank_id (cancelBody bank) = bank_id bank"
    by (simp add: cancelBody_def spread_def)
  have fail: "\<not> update_ok env \<Longrightarrow>
      handleCancel s env =
        (s\<lparr> loading := False, error := Some ''Failed to cancel assignment. Please try again.'' \<rparr>,
         [Put (bank_id bank) (cancelBody bank)])"
    using held by (simp add: handleCancel_def Let_def)
  have "(fst ?f)\<lparr> loading := False \<rparr> = fst ?f"
    using fetch_loading [of ?c "refetch env"] by simp
  then have ok: "update_ok env \<Longrightarrow>
      handleCancel s env = (fst ?f, Put (bank_id bank) (cancelBody bank) # snd ?f)"
    using held by (simp add: handleCancel_def Let_def case_prod_beta)
  have fv: "formValues (fst ?f) = defaultValues"
    by (simp add: fetch_formValues form_reset_def)
  have cb: "currentBank (fst ?f) = None
            \<or> (\<exists>banks b. get_result (refetch env) = Some banks \<and> b \<in> set banks
                  \<and> unassigned b \<and> currentBank (fst ?f) = Some b)"
  proof (cases "currentBank (fst ?f)")
    case None
    then show ?thesis by simp
  next
    case (Some b)
    from fetch_currentBank [OF Some] show ?thesis
      using Some by (auto simp add: form_reset_def)
  qed
  show ?thesis
  proof (cases "update_ok env")
    case True
    with ok fv cb body show ?thesis by auto
  next
    case False
    with fail body show ?thesis by simp
  qed
qed

theorem handleCancel_outcome_witness:
  "currentBank presenting = Some bank1
   \<and> update_ok update_done
   \<and> handleCancel presenting update_done =
       (awaiting\<lparr> error := Some ''No unassigned banks available at the moment.'' \<rparr>,
        [Put 1 (cancelBody bank1), Get])"
proof -
  have a: "currentBank presenting = Some bank1"
    by (simp add: presenting_def)
  have b: "update_ok update_done"
    by (simp add: update_done_def)
  have g: "get_result (refetch update_done) = Some [bank2]"
    by (simp add: update_done_def)
  have f: "filter unassigned [bank2] = []"
    by (simp add: assigned_bank2)
  from handleCancel_outcome [OF a, of update_done] b
  have "handleCancel presenting update_done =
          (fst (fetchUnassignedBank
                  (form_reset (presenting\<lparr> loading := True, error := None, currentBank := None \<rparr>))
                  (refetch update_done)),
           Put (bank_id bank1) (cancelBody bank1)
             # snd (fetchUnassignedBank
                      (form_reset (presenting\<lparr> loading := True, error := None, currentBank := None \<rparr>))
                      (refetch update_done)))"
    by blast
  then show ?thesis
    using a b
    by (simp add: fetch_none_unassigned [OF g f])
       (simp add: presenting_def awaiting_def form_reset_def bank1_def)
qed

end
